theory Spec2Isabelle
  imports Complex_Main
begin

section \<open>The rate limiter of \<^verbatim>\<open>app.py\<close>\<close>

text \<open>
  The class \<^verbatim>\<open>RateLimiter\<close> keeps three lists of call timestamps and the time of the
  last recorded call, and stores two of the lists and that time in a JSON file.
  Timestamps are Python floats read from \<^verbatim>\<open>time.time()\<close>; they are modelled as
  \<^typ>\<open>real\<close> numbers, so rounding, overflow, infinities and NaN are outside the model. Every call
  of \<^verbatim>\<open>time.time()\<close> is a parameter of the function that makes it, in the order of
  the calls.
\<close>

subsection \<open>Values, errors and messages\<close>

text \<open>
  What \<^verbatim>\<open>json.load\<close> returns: \<^verbatim>\<open>None\<close>, a bool, a number, a string, a list or a dict
  (its items in insertion order, the keys distinct). The attribute \<^verbatim>\<open>last_request_time\<close> is assigned from
  the file without conversion, so it holds such a value.
\<close>

datatype pyval =
    PNone
  | PBool bool
  | PNum real
  | PStr string
  | PList "pyval list"
  | PDict "(string \<times> pyval) list"

datatype error = TypeError | ValueError

text \<open>
  An f-string is a sequence of literal pieces and formatted fields; \<open>Fixed d x\<close> is the
  field \<^verbatim>\<open>{x:.df}\<close>, the number \<open>x\<close> printed with \<open>d\<close> decimals. String literals are
  the bytes of the source file (UTF-8).
\<close>

datatype fpart = Lit string | Fixed nat real

type_synonym message = "fpart list"

definition warning_sign :: string where
  "warning_sign = [CHR 0xE2, CHR 0x9A, CHR 0xA0, CHR 0xEF, CHR 0xB8, CHR 0x8F]"

definition hourglass :: string where
  "hourglass = [CHR 0xE2, CHR 0x8F, CHR 0xB3]"

definition minute_message :: "real \<Rightarrow> message" where
  "minute_message wait_time =
     [Lit (warning_sign @ '' Minute limit exceeded. Wait ''), Fixed 0 wait_time, Lit ''s.'']"

definition daily_message :: message where
  "daily_message = [Lit (warning_sign @ '' Daily limit reached. Resets at midnight PT.'')]"

definition cooldown_message :: "real \<Rightarrow> message" where
  "cooldown_message wait =
     [Lit (hourglass @ '' Please wait ''), Fixed 1 wait, Lit ''s before next request.'']"

fun is_Fixed :: "fpart \<Rightarrow> bool" where
  "is_Fixed (Fixed d x) = True"
| "is_Fixed (Lit s) = False"

subsection \<open>Configuration\<close>

definition MAX_REQUESTS_PER_MINUTE :: int where
  "MAX_REQUESTS_PER_MINUTE = 10"

definition MAX_REQUESTS_PER_DAY :: int where
  "MAX_REQUESTS_PER_DAY = 1500"

definition MAX_TOKENS_PER_MINUTE :: int where
  "MAX_TOKENS_PER_MINUTE = 1000000"

definition REQUEST_COOLDOWN :: real where
  "REQUEST_COOLDOWN = 6"

subsection \<open>The limiter object\<close>

record limiter =
  minute_requests :: "real list"
  daily_requests :: "real list"
  last_request_time :: pyval
  request_timestamps :: "real list"

definition reset_state :: "limiter \<Rightarrow> limiter" where
  "reset_state self =
     self\<lparr>minute_requests := [], daily_requests := [],
          last_request_time := PNum 0, request_timestamps := []\<rparr>"

definition clean_old_requests :: "real \<Rightarrow> limiter \<Rightarrow> limiter" where
  "clean_old_requests current_time self =
     self\<lparr>minute_requests := filter (\<lambda>t. t > current_time - 60) (minute_requests self),
          daily_requests := filter (\<lambda>t. t > current_time - 86400) (daily_requests self),
          request_timestamps := filter (\<lambda>t. t > current_time - 300) (request_timestamps self)\<rparr>"

text \<open>
  The list comprehension of \<^verbatim>\<open>calculate_backoff_time\<close> calls \<^verbatim>\<open>time.time()\<close> in its
  condition, once for every timestamp of the list: \<open>clock i\<close> is the reading made for the
  timestamp at position \<open>i\<close>.
\<close>

fun recent_from :: "(nat \<Rightarrow> real) \<Rightarrow> nat \<Rightarrow> real list \<Rightarrow> real list" where
  "recent_from clock i [] = []"
| "recent_from clock i (t # ts) =
     (if t > clock i - 60 then t # recent_from clock (Suc i) ts
      else recent_from clock (Suc i) ts)"

definition calculate_backoff_time :: "(nat \<Rightarrow> real) \<Rightarrow> limiter \<Rightarrow> int" where
  "calculate_backoff_time clock self =
     (if length (request_timestamps self) \<ge> 3 then
        (let recent_requests = recent_from clock 0 (request_timestamps self) in
         if length recent_requests \<ge> 3
         then min (2 ^ (length recent_requests - 2)) 60
         else 0)
      else 0)"

text \<open>Python's \<^verbatim>\<open>min\<close> of a list raises \<^verbatim>\<open>ValueError\<close> on the empty list.\<close>

fun py_min :: "real list \<Rightarrow> real option" where
  "py_min [] = None"
| "py_min (x # xs) = Some (fold min xs x)"

text \<open>
  The operand of \<^verbatim>\<open>last_request_time > 0\<close> and \<^verbatim>\<open>current_time - last_request_time\<close>:
  a number, or a bool (which Python counts as 0 or 1); any other value raises
  \<^verbatim>\<open>TypeError\<close> at the comparison.
\<close>

fun py_number :: "pyval \<Rightarrow> real option" where
  "py_number (PNum r) = Some r"
| "py_number (PBool b) = Some (if b then 1 else 0)"
| "py_number v = None"

text \<open>
  \<^verbatim>\<open>can_make_request\<close> reads the clock in \<^verbatim>\<open>clean_old_requests\<close> (\<open>t_clean\<close>), then
  itself (\<open>current_time\<close>), then in \<^verbatim>\<open>calculate_backoff_time\<close> (the readings \<open>clock\<close>). It
  returns the pruned object together with the pair it returns, or the exception it raises.
\<close>

definition can_make_request ::
  "real \<Rightarrow> real \<Rightarrow> (nat \<Rightarrow> real) \<Rightarrow> limiter \<Rightarrow> limiter \<times> (error + bool \<times> message option)" where
  "can_make_request t_clean current_time clock self0 =
     (let self = clean_old_requests t_clean self0 in
      (self,
       if int (length (minute_requests self)) \<ge> MAX_REQUESTS_PER_MINUTE then
         (case py_min (minute_requests self) of
            None \<Rightarrow> Inl ValueError
          | Some oldest_request \<Rightarrow>
              (let wait_time = 60 - (current_time - oldest_request)
               in Inr (False, Some (minute_message wait_time))))
       else if int (length (daily_requests self)) \<ge> MAX_REQUESTS_PER_DAY then
         Inr (False, Some daily_message)
       else
         (case py_number (last_request_time self) of
            None \<Rightarrow> Inl TypeError
          | Some last_time \<Rightarrow>
              if last_time > 0 then
                (let elapsed = current_time - last_time;
                     cooldown = REQUEST_COOLDOWN
                                + real_of_int (calculate_backoff_time clock self)
                 in if elapsed < cooldown
                    then Inr (False, Some (cooldown_message (cooldown - elapsed)))
                    else Inr (True, None))
              else Inr (True, None))))"

subsection \<open>The state file\<close>

text \<open>
  What the file \<^verbatim>\<open>rate_limit_state.json\<close> can be when it is read: absent
  (\<^verbatim>\<open>exists()\<close> is false), present but not openable, present with contents that
  \<^verbatim>\<open>json.load\<close> rejects, or present with the JSON value it parses to. Writing a value
  and reading it back gives the same value.
\<close>

datatype file_state = Absent | Unreadable | Garbage | Json pyval

text \<open>
  How the write in \<^verbatim>\<open>save_state\<close> ends: it succeeds, \<^verbatim>\<open>open\<close> raises and the file is
  as before, or the write raises after the file was truncated.
\<close>

datatype write_outcome = Written | OpenFailed | WriteFailed

definition state_dict :: "limiter \<Rightarrow> pyval" where
  "state_dict self =
     PDict [(''minute_requests'', PList (map PNum (minute_requests self))),
            (''daily_requests'', PList (map PNum (daily_requests self))),
            (''last_request_time'', last_request_time self)]"

text \<open>The exception of a failed write is caught and printed; nothing is raised.\<close>

definition save_state :: "write_outcome \<Rightarrow> limiter \<Rightarrow> file_state \<Rightarrow> file_state" where
  "save_state w self file =
     (case w of
        Written \<Rightarrow> Json (state_dict self)
      | OpenFailed \<Rightarrow> file
      | WriteFailed \<Rightarrow> Garbage)"

definition record_request ::
  "real \<Rightarrow> write_outcome \<Rightarrow> limiter \<times> file_state \<Rightarrow> limiter \<times> file_state" where
  "record_request current_time w sf =
     (let self = fst sf;
          self = self\<lparr>minute_requests := minute_requests self @ [current_time]\<rparr>;
          self = self\<lparr>daily_requests := daily_requests self @ [current_time]\<rparr>;
          self = self\<lparr>request_timestamps := request_timestamps self @ [current_time]\<rparr>;
          self = self\<lparr>last_request_time := PNum current_time\<rparr>
      in (self, save_state w self (snd sf)))"

record stats =
  minute_used :: int
  minute_limit :: int
  minute_remaining :: int
  daily_used :: int
  daily_limit :: int
  daily_remaining :: int
  tokens_per_minute :: int

text \<open>
  \<^verbatim>\<open>get_stats\<close> reads the clock in \<^verbatim>\<open>clean_old_requests\<close>; its own reading
  \<^verbatim>\<open>current_time\<close> is not used.
\<close>

definition get_stats :: "real \<Rightarrow> limiter \<Rightarrow> limiter \<times> stats" where
  "get_stats t_clean self0 =
     (let self = clean_old_requests t_clean self0;
          minute_remaining = MAX_REQUESTS_PER_MINUTE - int (length (minute_requests self));
          daily_remaining = MAX_REQUESTS_PER_DAY - int (length (daily_requests self))
      in (self,
          \<lparr>minute_used = int (length (minute_requests self)),
           minute_limit = MAX_REQUESTS_PER_MINUTE,
           minute_remaining = minute_remaining,
           daily_used = int (length (daily_requests self)),
           daily_limit = MAX_REQUESTS_PER_DAY,
           daily_remaining = daily_remaining,
           tokens_per_minute = MAX_TOKENS_PER_MINUTE\<rparr>))"

subsection \<open>Loading\<close>

text \<open>
  \<^verbatim>\<open>state.get(key, [])\<close> needs a dict (anything else has no \<^verbatim>\<open>get\<close>); the list
  comprehension iterates over the value (a list gives its items, a string its characters,
  a dict its keys, anything else raises) and applies \<^verbatim>\<open>float\<close> to each item. Python's
  parser of a string into a float is the parameter \<open>str_float\<close>. Every exception in the
  \<^verbatim>\<open>try\<close> block is caught, so \<open>None\<close> stands for all of them.
\<close>

fun dict_get :: "pyval \<Rightarrow> string \<Rightarrow> pyval \<Rightarrow> pyval option" where
  "dict_get (PDict kvs) k d = Some (case map_of kvs k of None \<Rightarrow> d | Some v \<Rightarrow> v)"
| "dict_get v k d = None"

fun py_iter :: "pyval \<Rightarrow> pyval list option" where
  "py_iter (PList xs) = Some xs"
| "py_iter (PStr s) = Some (map (\<lambda>c. PStr [c]) s)"
| "py_iter (PDict kvs) = Some (map (\<lambda>kv. PStr (fst kv)) kvs)"
| "py_iter v = None"

fun py_float :: "(string \<Rightarrow> real option) \<Rightarrow> pyval \<Rightarrow> real option" where
  "py_float str_float (PNum r) = Some r"
| "py_float str_float (PBool b) = Some (if b then 1 else 0)"
| "py_float str_float (PStr s) = str_float s"
| "py_float str_float v = None"

fun floats :: "(string \<Rightarrow> real option) \<Rightarrow> pyval list \<Rightarrow> real list option" where
  "floats str_float [] = Some []"
| "floats str_float (v # vs) =
     (case py_float str_float v of
        None \<Rightarrow> None
      | Some r \<Rightarrow> (case floats str_float vs of None \<Rightarrow> None | Some rs \<Rightarrow> Some (r # rs)))"

definition float_list :: "(string \<Rightarrow> real option) \<Rightarrow> pyval \<Rightarrow> real list option" where
  "float_list str_float v =
     (case py_iter v of None \<Rightarrow> None | Some xs \<Rightarrow> floats str_float xs)"

definition load_state :: "(string \<Rightarrow> real option) \<Rightarrow> file_state \<Rightarrow> limiter \<Rightarrow> limiter" where
  "load_state str_float file self =
     (case file of
        Absent \<Rightarrow> reset_state self
      | Unreadable \<Rightarrow> reset_state self
      | Garbage \<Rightarrow> reset_state self
      | Json state \<Rightarrow>
          (case dict_get state ''minute_requests'' (PList []) of
             None \<Rightarrow> reset_state self
           | Some mv \<Rightarrow>
          (case float_list str_float mv of
             None \<Rightarrow> reset_state self
           | Some m \<Rightarrow>
          (case dict_get state ''daily_requests'' (PList []) of
             None \<Rightarrow> reset_state self
           | Some dv \<Rightarrow>
          (case float_list str_float dv of
             None \<Rightarrow> reset_state self
           | Some d \<Rightarrow>
          (case dict_get state ''last_request_time'' (PNum 0) of
             None \<Rightarrow> reset_state self
           | Some l \<Rightarrow>
               self\<lparr>minute_requests := m, daily_requests := d,
                    last_request_time := l\<rparr>))))))"

text \<open>
  \<^verbatim>\<open>__init__\<close> runs \<^verbatim>\<open>load_state\<close> on the new object and then sets
  \<^verbatim>\<open>request_timestamps\<close> to the empty list. The new object has no attribute yet; every
  field of \<open>blank\<close> is overwritten before it is read.
\<close>

definition blank :: limiter where
  "blank = \<lparr>minute_requests = [], daily_requests = [],
            last_request_time = PNone, request_timestamps = []\<rparr>"

definition RateLimiter :: "(string \<Rightarrow> real option) \<Rightarrow> file_state \<Rightarrow> limiter" where
  "RateLimiter str_float file = (load_state str_float file blank)\<lparr>request_timestamps := []\<rparr>"

subsection \<open>Runs\<close>

text \<open>
  A process that starts with no state file, and a sequence of calls of
  \<^verbatim>\<open>record_request\<close> at the given clock readings, each of whose writes succeeds.
\<close>

definition fresh :: "limiter \<times> file_state" where
  "fresh = (RateLimiter (\<lambda>s. None) Absent, Absent)"

definition records :: "real list \<Rightarrow> limiter \<times> file_state \<Rightarrow> limiter \<times> file_state" where
  "records ts sf = fold (\<lambda>t. record_request t Written) ts sf"

text \<open>
  The operations of a process on the limiter and the file: \<^verbatim>\<open>can_make_request\<close> and
  \<^verbatim>\<open>get_stats\<close> with their clock readings, \<^verbatim>\<open>record_request\<close> with its clock reading
  and the outcome of its write, and a restart of the process, which builds a new
  \<^verbatim>\<open>RateLimiter\<close> from the file.
\<close>

datatype op = Check real real "nat \<Rightarrow> real" | Stats real | Record real write_outcome | Restart

fun step :: "(string \<Rightarrow> real option) \<Rightarrow> op \<Rightarrow> limiter \<times> file_state \<Rightarrow> limiter \<times> file_state" where
  "step str_float (Check t now clock) (s, f) = (fst (can_make_request t now clock s), f)"
| "step str_float (Stats t) (s, f) = (fst (get_stats t s), f)"
| "step str_float (Record t w) (s, f) = record_request t w (s, f)"
| "step str_float Restart (s, f) = (RateLimiter str_float f, f)"

fun run :: "(string \<Rightarrow> real option) \<Rightarrow> op list \<Rightarrow> limiter \<times> file_state \<Rightarrow> limiter \<times> file_state" where
  "run str_float [] x = x"
| "run str_float (a # as) x = run str_float as (step str_float a x)"

text \<open>
  The clock does not go back: every \<^verbatim>\<open>record_request\<close> reads a time that is not before
  \<^verbatim>\<open>last_request_time\<close>.
\<close>

fun clock_ok :: "(string \<Rightarrow> real option) \<Rightarrow> op list \<Rightarrow> limiter \<times> file_state \<Rightarrow> bool" where
  "clock_ok str_float [] x = True"
| "clock_ok str_float (Record t w # as) x =
     ((case py_number (last_request_time (fst x)) of None \<Rightarrow> False | Some l \<Rightarrow> l \<le> t)
      \<and> clock_ok str_float as (step str_float (Record t w) x))"
| "clock_ok str_float (a # as) x = clock_ok str_float as (step str_float a x)"

text \<open>
  Python's \<^verbatim>\<open>max\<close> of a list raises \<^verbatim>\<open>ValueError\<close> on the empty list. \<open>last_is_max\<close>
  says that \<^verbatim>\<open>last_request_time\<close> is the maximum of the timestamps of the three lists.
\<close>

fun py_max :: "real list \<Rightarrow> real option" where
  "py_max [] = None"
| "py_max (x # xs) = Some (fold max xs x)"

definition last_is_max :: "limiter \<Rightarrow> bool" where
  "last_is_max s =
     (case py_max (minute_requests s @ daily_requests s @ request_timestamps s) of
        None \<Rightarrow> False
      | Some m \<Rightarrow> last_request_time s = PNum m)"

text \<open>
  The invariant of the runs: \<^verbatim>\<open>last_request_time\<close> is a number that bounds every list and
  is in every list that is not empty, and the file, when it holds a state, holds one of
  which the same is true.
\<close>

definition topped :: "real \<Rightarrow> real list \<Rightarrow> bool" where
  "topped l xs = ((\<forall>t \<in> set xs. t \<le> l) \<and> (xs \<noteq> [] \<longrightarrow> l \<in> set xs))"

definition good :: "limiter \<Rightarrow> bool" where
  "good s = (\<exists>l. last_request_time s = PNum l \<and> topped l (minute_requests s)
               \<and> topped l (daily_requests s) \<and> topped l (request_timestamps s))"

definition file_good :: "file_state \<Rightarrow> bool" where
  "file_good f = (f = Absent \<or> f = Garbage \<or> (\<exists>s. good s \<and> f = Json (state_dict s)))"

section \<open>Properties\<close>

subsection \<open>Auxiliary facts\<close>

lemma py_min_Min:
  assumes "xs \<noteq> []"
  shows "py_min xs = Some (Min (set xs))"
proof (cases xs)
  case Nil
  with assms show ?thesis by simp
next
  case (Cons x ys)
  then show ?thesis
    using Min.set_eq_fold [of x ys] by simp
qed

lemma can_make_request_fst [simp]:
  "fst (can_make_request t_clean now clock s) = clean_old_requests t_clean s"
  by (simp add: can_make_request_def Let_def)

lemma fresh_eq: "fst fresh = \<lparr>minute_requests = [], daily_requests = [],
            last_request_time = PNum 0, request_timestamps = []\<rparr>"
  by (simp add: fresh_def RateLimiter_def load_state_def reset_state_def blank_def)

lemmas run_defs = records_def fresh_def RateLimiter_def load_state_def reset_state_def
  blank_def record_request_def Let_def save_state_def state_dict_def float_list_def

lemma ten_records:
  "fst (records [100, 101, 102, 103, 104, 105, 106, 107, 108, 109] fresh) =
     \<lparr>minute_requests = [100, 101, 102, 103, 104, 105, 106, 107, 108, 109],
      daily_requests = [100, 101, 102, 103, 104, 105, 106, 107, 108, 109],
      last_request_time = PNum 109,
      request_timestamps = [100, 101, 102, 103, 104, 105, 106, 107, 108, 109]\<rparr>"
  by (simp add: run_defs)

lemma nine_reloaded:
  "RateLimiter (\<lambda>s. None) (snd (records [100, 101, 102, 103, 104, 105, 106, 107, 108] fresh)) =
     \<lparr>minute_requests = [100, 101, 102, 103, 104, 105, 106, 107, 108],
      daily_requests = [100, 101, 102, 103, 104, 105, 106, 107, 108],
      last_request_time = PNum 108,
      request_timestamps = []\<rparr>"
  by (simp add: run_defs)

lemma records_Nil [simp]: "records [] sf = sf"
  by (simp add: records_def)

lemma records_snoc: "records (ts @ [t]) sf = record_request t Written (records ts sf)"
  by (simp add: records_def)

lemma records_fields:
  "minute_requests (fst (records ts sf)) = minute_requests (fst sf) @ ts"
  "daily_requests (fst (records ts sf)) = daily_requests (fst sf) @ ts"
  "request_timestamps (fst (records ts sf)) = request_timestamps (fst sf) @ ts"
  "last_request_time (fst (records ts sf)) =
     (if ts = [] then last_request_time (fst sf) else PNum (last ts))"
  by (induction ts rule: rev_induct) (simp_all add: records_snoc record_request_def Let_def)

lemma clean_fields [simp]:
  "minute_requests (clean_old_requests t s) = filter (\<lambda>x. x > t - 60) (minute_requests s)"
  "daily_requests (clean_old_requests t s) = filter (\<lambda>x. x > t - 86400) (daily_requests s)"
  "request_timestamps (clean_old_requests t s) = filter (\<lambda>x. x > t - 300) (request_timestamps s)"
  "last_request_time (clean_old_requests t s) = last_request_time s"
  by (simp_all add: clean_old_requests_def)

lemma one_record:
  "fst (records [100] fresh) =
     \<lparr>minute_requests = [100], daily_requests = [100],
      last_request_time = PNum 100, request_timestamps = [100]\<rparr>"
  by (simp add: run_defs)


lemma get_stats_fst [simp]: "fst (get_stats t s) = clean_old_requests t s"
  by (simp add: get_stats_def Let_def)

lemma can_make_request_clean:
  "can_make_request t now clock s =
     (clean_old_requests t s, snd (can_make_request t now clock (clean_old_requests t s)))"
  by (simp add: can_make_request_def Let_def clean_old_requests_def)

lemma filter_window:
  fixes t t' w :: real
  shows "t \<le> t' \<Longrightarrow>
    filter (\<lambda>x. x > t' - w) (filter (\<lambda>x. x > t - w) xs) = filter (\<lambda>x. x > t' - w) xs"
  by (induction xs) auto

lemma clean_clean:
  "t \<le> t' \<Longrightarrow> clean_old_requests t' (clean_old_requests t s) = clean_old_requests t' s"
  by (simp add: clean_old_requests_def filter_window del: filter_filter)

lemma ten_at_zero:
  "fst (records [0, 0, 0, 0, 0, 0, 0, 0, 0, 0] fresh) =
     \<lparr>minute_requests = [0, 0, 0, 0, 0, 0, 0, 0, 0, 0],
      daily_requests = [0, 0, 0, 0, 0, 0, 0, 0, 0, 0],
      last_request_time = PNum 0,
      request_timestamps = [0, 0, 0, 0, 0, 0, 0, 0, 0, 0]\<rparr>"
  by (simp add: run_defs)

lemma floats_PNum [simp]: "floats str_float (map PNum xs) = Some xs"
  by (induction xs) simp_all

lemma RateLimiter_state_dict:
  "RateLimiter str_float (Json (state_dict s)) = s\<lparr>request_timestamps := []\<rparr>"
  by (cases s) (simp add: RateLimiter_def load_state_def state_dict_def float_list_def blank_def)

lemma RateLimiter_reset:
  "f = Absent \<or> f = Unreadable \<or> f = Garbage \<Longrightarrow>
     RateLimiter str_float f = \<lparr>minute_requests = [], daily_requests = [],
        last_request_time = PNum 0, request_timestamps = []\<rparr>"
  by (auto simp: RateLimiter_def load_state_def reset_state_def blank_def)

lemma py_max_Max:
  assumes "xs \<noteq> []"
  shows "py_max xs = Some (Max (set xs))"
proof (cases xs)
  case Nil
  with assms show ?thesis by simp
next
  case (Cons x ys)
  then show ?thesis
    using Max.set_eq_fold [of x ys] by simp
qed

lemma topped_filter: "topped l xs \<Longrightarrow> topped l (filter (\<lambda>x. x > c) xs)"
  by (fastforce simp: topped_def filter_empty_conv)

lemma topped_snoc: "\<forall>x \<in> set xs. x \<le> l \<Longrightarrow> l \<le> t \<Longrightarrow> topped t (xs @ [t])"
  by (fastforce simp: topped_def)

lemma good_clean: "good s \<Longrightarrow> good (clean_old_requests t s)"
  by (auto simp: good_def intro: topped_filter)

lemma good_record:
  assumes "good s" "py_number (last_request_time s) = Some l" "l \<le> t"
  shows "good (fst (record_request t w (s, f)))"
proof -
  from assms(1,2) have l: "last_request_time s = PNum l"
    and le: "\<forall>x \<in> set (minute_requests s). x \<le> l" "\<forall>x \<in> set (daily_requests s). x \<le> l"
      "\<forall>x \<in> set (request_timestamps s). x \<le> l"
    by (auto simp: good_def topped_def)
  show ?thesis
    using le assms(3) by (simp add: good_def record_request_def Let_def topped_snoc)
qed

lemma file_good_save: "good s \<Longrightarrow> file_good f \<Longrightarrow> file_good (save_state w s f)"
  by (cases w) (auto simp: save_state_def file_good_def)

lemma good_restart: "file_good f \<Longrightarrow> good (RateLimiter str_float f)"
  unfolding file_good_def
proof (elim disjE exE conjE)
  fix s assume "good s" "f = Json (state_dict s)"
  then show ?thesis
    by (auto simp: RateLimiter_state_dict good_def topped_def)
qed (simp_all add: RateLimiter_reset good_def topped_def)

lemma good_fresh: "good (fst fresh)" "file_good (snd fresh)"
proof -
  show "good (fst fresh)"
    by (simp add: fresh_eq good_def topped_def)
  show "file_good (snd fresh)"
    by (simp add: fresh_def file_good_def)
qed

lemma good_step:
  assumes "good (fst x)" "file_good (snd x)" "clock_ok str_float [a] x"
  shows "good (fst (step str_float a x)) \<and> file_good (snd (step str_float a x))"
proof (cases x)
  case (Pair s f)
  show ?thesis
  proof (cases a)
    case (Check t now clock)
    with Pair assms show ?thesis by (simp add: good_clean)
  next
    case (Stats t)
    with Pair assms show ?thesis by (simp add: good_clean)
  next
    case (Record t w)
    from assms(3) Record Pair obtain l where l: "py_number (last_request_time s) = Some l" "l \<le> t"
      by (auto split: option.splits)
    with assms(1) Pair have g: "good (fst (record_request t w (s, f)))"
      by (simp add: good_record)
    moreover have "snd (record_request t w (s, f)) = save_state w (fst (record_request t w (s, f))) f"
      by (simp add: record_request_def Let_def)
    ultimately show ?thesis
      using Record Pair assms(2) by (simp add: file_good_save)
  next
    case Restart
    with Pair assms show ?thesis by (simp add: good_restart)
  qed
qed

lemma clock_ok_Cons:
  "clock_ok str_float (a # as) x =
     (clock_ok str_float [a] x \<and> clock_ok str_float as (step str_float a x))"
  by (cases a) simp_all

lemma good_run:
  "good (fst x) \<Longrightarrow> file_good (snd x) \<Longrightarrow> clock_ok str_float ops x \<Longrightarrow>
     good (fst (run str_float ops x)) \<and> file_good (snd (run str_float ops x))"
proof (induction ops arbitrary: x)
  case Nil
  then show ?case by simp
next
  case (Cons a as)
  from Cons.prems(3) have a: "clock_ok str_float [a] x"
    and as: "clock_ok str_float as (step str_float a x)"
    by (simp_all add: clock_ok_Cons [of _ a as])
  from good_step [OF Cons.prems(1,2) a] Cons.IH as show ?case
    by simp
qed

lemma good_last_is_max:
  assumes "good s" "minute_requests s @ daily_requests s @ request_timestamps s \<noteq> []"
  shows "last_is_max s"
proof -
  let ?xs = "minute_requests s @ daily_requests s @ request_timestamps s"
  from assms(1) obtain l where l: "last_request_time s = PNum l"
    and w: "topped l (minute_requests s)" "topped l (daily_requests s)"
      "topped l (request_timestamps s)"
    by (auto simp: good_def)
  from w have le: "\<forall>x \<in> set ?xs. x \<le> l"
    by (auto simp: topped_def)
  from w assms(2) have mem: "l \<in> set ?xs"
    by (auto simp: topped_def)
  have "Max (set ?xs) = l"
    using le mem by (intro Max_eqI) auto
  with py_max_Max [OF assms(2)] l show ?thesis
    by (simp add: last_is_max_def)
qed

lemma run_append: "run str_float (as @ bs) x = run str_float bs (run str_float as x)"
  by (induction as arbitrary: x) simp_all

lemma record_request_snd_Written:
  "snd (record_request t Written sf) = Json (state_dict (fst (record_request t Written sf)))"
  by (simp add: record_request_def Let_def save_state_def)

lemma records_snd:
  "ts \<noteq> [] \<Longrightarrow> snd (records ts sf) = Json (state_dict (fst (records ts sf)))"
  by (induction ts rule: rev_induct) (simp_all add: records_snoc record_request_snd_Written)

lemma get_stats_burst:
  "snd (get_stats now (s\<lparr>request_timestamps := b\<rparr>)) = snd (get_stats now s)"
  by (simp add: get_stats_def Let_def)

lemma length_recent_from: "length (recent_from clock i ts) \<le> length ts"
  by (induction ts arbitrary: i) (auto simp: le_SucI)

lemma recent_from_same:
  "(\<forall>j. i \<le> j \<and> j < i + length ts \<longrightarrow> clock j = now) \<Longrightarrow>
     recent_from clock i ts = filter (\<lambda>t. t > now - 60) ts"
proof (induction ts arbitrary: i)
  case Nil
  then show ?case by simp
next
  case (Cons t ts)
  from Cons.prems have here: "clock i = now"
    by simp
  from Cons.prems have "\<forall>j. Suc i \<le> j \<and> j < Suc i + length ts \<longrightarrow> clock j = now"
    by simp
  then have "recent_from clock (Suc i) ts = filter (\<lambda>t. t > now - 60) ts"
    by (rule Cons.IH)
  with here show ?case
    by simp
qed

lemma recent_from_bounds:
  "(\<forall>j. i \<le> j \<and> j < i + length ts \<longrightarrow> lo \<le> clock j \<and> clock j \<le> hi) \<Longrightarrow>
     length (filter (\<lambda>t. t > hi - 60) ts) \<le> length (recent_from clock i ts)
     \<and> length (recent_from clock i ts) \<le> length (filter (\<lambda>t. t > lo - 60) ts)"
proof (induction ts arbitrary: i)
  case Nil
  then show ?case by simp
next
  case (Cons t ts)
  from Cons.prems have here: "lo \<le> clock i" "clock i \<le> hi"
    by simp_all
  from Cons.prems
  have "\<forall>j. Suc i \<le> j \<and> j < Suc i + length ts \<longrightarrow> lo \<le> clock j \<and> clock j \<le> hi"
    by simp
  then have "length (filter (\<lambda>t. t > hi - 60) ts) \<le> length (recent_from clock (Suc i) ts)
     \<and> length (recent_from clock (Suc i) ts) \<le> length (filter (\<lambda>t. t > lo - 60) ts)"
    by (rule Cons.IH)
  with here show ?case
    by auto
qed

lemma messages_differ:
  "minute_message w \<noteq> daily_message"
  "minute_message w \<noteq> cooldown_message w'"
  by (simp_all add: minute_message_def daily_message_def cooldown_message_def
      warning_sign_def hourglass_def)

subsection \<open>The minute ceiling\<close>

text \<open>
  Claim C1. If, after pruning, the minute list holds at least
  \<open>MAX_REQUESTS_PER_MINUTE\<close> (10) timestamps, \<^verbatim>\<open>can_make_request\<close> returns
  \<^verbatim>\<open>False\<close> with the minute message, whose field is the wait time
  \<open>60 - (current_time - min(minute_requests))\<close>. This holds whatever the daily list and
  \<^verbatim>\<open>last_request_time\<close> are, so the check comes before the daily and cooldown checks.
  With fewer than 10 timestamps in the window (one fewer in particular), the daily ceiling
  not reached, and either no recorded call (\<^verbatim>\<open>last_request_time\<close> not positive) or the
  cooldown with its backoff elapsed, it returns \<^verbatim>\<open>(True, None)\<close>.
\<close>

theorem minute_ceiling_first:
  "(MAX_REQUESTS_PER_MINUTE \<le> int (length (minute_requests (clean_old_requests t_clean s))) \<longrightarrow>
      can_make_request t_clean now clock s =
        (clean_old_requests t_clean s,
         Inr (False, Some (minute_message
           (60 - (now - Min (set (minute_requests (clean_old_requests t_clean s)))))))))
   \<and> (int (length (minute_requests (clean_old_requests t_clean s))) < MAX_REQUESTS_PER_MINUTE
      \<and> int (length (daily_requests (clean_old_requests t_clean s))) < MAX_REQUESTS_PER_DAY
      \<and> py_number (last_request_time s) = Some l
      \<and> (l > 0 \<longrightarrow> REQUEST_COOLDOWN
             + real_of_int (calculate_backoff_time clock (clean_old_requests t_clean s))
             \<le> now - l) \<longrightarrow>
      can_make_request t_clean now clock s =
        (clean_old_requests t_clean s, Inr (True, None)))"
proof (intro conjI impI)
  let ?c = "clean_old_requests t_clean s"
  assume full: "MAX_REQUESTS_PER_MINUTE \<le> int (length (minute_requests ?c))"
  then have "minute_requests ?c \<noteq> []"
    by (auto simp: MAX_REQUESTS_PER_MINUTE_def)
  then have "py_min (minute_requests ?c) = Some (Min (set (minute_requests ?c)))"
    by (rule py_min_Min)
  with full show "can_make_request t_clean now clock s =
        (?c, Inr (False, Some (minute_message (60 - (now - Min (set (minute_requests ?c)))))))"
    by (simp add: can_make_request_def Let_def)
next
  let ?c = "clean_old_requests t_clean s"
  assume h: "int (length (minute_requests ?c)) < MAX_REQUESTS_PER_MINUTE
      \<and> int (length (daily_requests ?c)) < MAX_REQUESTS_PER_DAY
      \<and> py_number (last_request_time s) = Some l
      \<and> (l > 0 \<longrightarrow> REQUEST_COOLDOWN
             + real_of_int (calculate_backoff_time clock ?c) \<le> now - l)"
  have last: "last_request_time ?c = last_request_time s"
    by (simp add: clean_old_requests_def)
  from h show "can_make_request t_clean now clock s = (?c, Inr (True, None))"
    by (auto simp: can_make_request_def Let_def last)
qed

theorem minute_ceiling_first_witness:
  "snd (can_make_request 110 110 (\<lambda>i. 110)
          (fst (records [100, 101, 102, 103, 104, 105, 106, 107, 108, 109] fresh)))
     = Inr (False, Some (minute_message 50))
   \<and> snd (can_make_request 115 115 (\<lambda>i. 115)
          (RateLimiter (\<lambda>s. None)
             (snd (records [100, 101, 102, 103, 104, 105, 106, 107, 108] fresh))))
     = Inr (True, None)"
proof
  let ?s = "fst (records [100, 101, 102, 103, 104, 105, 106, 107, 108, 109] fresh)"
  have full: "MAX_REQUESTS_PER_MINUTE \<le> int (length (minute_requests (clean_old_requests 110 ?s)))"
    by (simp add: ten_records clean_old_requests_def MAX_REQUESTS_PER_MINUTE_def)
  have "Min (set (minute_requests (clean_old_requests 110 ?s))) = 100"
    by (simp add: ten_records clean_old_requests_def)
  with minute_ceiling_first [of 110 ?s 110 "\<lambda>i. 110", THEN conjunct1, THEN mp, OF full]
  show "snd (can_make_request 110 110 (\<lambda>i. 110) ?s) = Inr (False, Some (minute_message 50))"
    by simp
next
  let ?r = "RateLimiter (\<lambda>s. None)
             (snd (records [100, 101, 102, 103, 104, 105, 106, 107, 108] fresh))"
  have ok: "int (length (minute_requests (clean_old_requests 115 ?r))) < MAX_REQUESTS_PER_MINUTE
      \<and> int (length (daily_requests (clean_old_requests 115 ?r))) < MAX_REQUESTS_PER_DAY
      \<and> py_number (last_request_time ?r) = Some 108
      \<and> ((108::real) > 0 \<longrightarrow> REQUEST_COOLDOWN
             + real_of_int (calculate_backoff_time (\<lambda>i. 115) (clean_old_requests 115 ?r))
             \<le> 115 - 108)"
    by (simp add: nine_reloaded clean_old_requests_def MAX_REQUESTS_PER_MINUTE_def
        MAX_REQUESTS_PER_DAY_def REQUEST_COOLDOWN_def calculate_backoff_time_def)
  from minute_ceiling_first [of 115 ?r 115 "\<lambda>i. 115" 108, THEN conjunct2, THEN mp, OF ok]
  show "snd (can_make_request 115 115 (\<lambda>i. 115) ?r) = Inr (True, None)"
    by simp
qed


subsection \<open>Backoff\<close>

text \<open>
  Claim C2. \<^verbatim>\<open>calculate_backoff_time\<close> returns \<open>min(2 ** (n - 2), 60)\<close>, where \<open>n\<close> is
  the length of \<^verbatim>\<open>recent_requests\<close>, when \<^verbatim>\<open>request_timestamps\<close> (which
  \<^verbatim>\<open>can_make_request\<close> has pruned to 300 seconds) holds at least 3 timestamps and \<open>n\<close> is
  at least 3; otherwise it returns 0. For \<open>n\<close> = 3, 4, 5 and 10 the result is 2, 4, 8 and
  60. \<^verbatim>\<open>recent_requests\<close> holds the timestamps that are within 60 seconds of the clock
  reading made for each of them: when the readings are all \<open>now\<close> it is the list of the
  timestamps greater than \<open>now - 60\<close>, and when they lie between \<open>lo\<close> and \<open>hi\<close> its
  length lies between the numbers of timestamps greater than \<open>hi - 60\<close> and greater than
  \<open>lo - 60\<close>.
\<close>

theorem backoff_formula:
  "calculate_backoff_time clock self =
     (if 3 \<le> length (request_timestamps self)
         \<and> 3 \<le> length (recent_from clock 0 (request_timestamps self))
      then min (2 ^ (length (recent_from clock 0 (request_timestamps self)) - 2)) 60
      else 0)
   \<and> (length (recent_from clock 0 (request_timestamps self)) = 3
        \<longrightarrow> calculate_backoff_time clock self = 2)
   \<and> (length (recent_from clock 0 (request_timestamps self)) = 4
        \<longrightarrow> calculate_backoff_time clock self = 4)
   \<and> (length (recent_from clock 0 (request_timestamps self)) = 5
        \<longrightarrow> calculate_backoff_time clock self = 8)
   \<and> (length (recent_from clock 0 (request_timestamps self)) = 10
        \<longrightarrow> calculate_backoff_time clock self = 60)
   \<and> (length (recent_from clock 0 (request_timestamps self)) < 3
        \<longrightarrow> calculate_backoff_time clock self = 0)
   \<and> ((\<forall>j < length (request_timestamps self). clock j = now) \<longrightarrow>
        recent_from clock 0 (request_timestamps self)
          = filter (\<lambda>t. t > now - 60) (request_timestamps self))
   \<and> ((\<forall>j < length (request_timestamps self). lo \<le> clock j \<and> clock j \<le> hi) \<longrightarrow>
        length (filter (\<lambda>t. t > hi - 60) (request_timestamps self))
          \<le> length (recent_from clock 0 (request_timestamps self))
        \<and> length (recent_from clock 0 (request_timestamps self))
          \<le> length (filter (\<lambda>t. t > lo - 60) (request_timestamps self)))"
proof -
  let ?ts = "request_timestamps self"
  let ?recent = "recent_from clock 0 ?ts"
  have sub: "length ?recent \<le> length ?ts"
    by (rule length_recent_from)
  have eq: "calculate_backoff_time clock self =
     (if 3 \<le> length ?ts \<and> 3 \<le> length ?recent
      then min (2 ^ (length ?recent - 2)) 60 else 0)"
    by (simp add: calculate_backoff_time_def Let_def)
  have val: "calculate_backoff_time clock self = min (2 ^ (n - 2)) 60"
    if "length ?recent = n" "3 \<le> n" for n
    using that sub by (simp add: eq)
  have v3: "calculate_backoff_time clock self = 2" if "length ?recent = 3"
    using val [OF that] by simp
  have v4: "calculate_backoff_time clock self = 4" if "length ?recent = 4"
    using val [OF that] by simp
  have v5: "calculate_backoff_time clock self = 8" if "length ?recent = 5"
    using val [OF that] by simp
  have v10: "calculate_backoff_time clock self = 60" if "length ?recent = 10"
    using val [OF that] by simp
  have v0: "calculate_backoff_time clock self = 0" if "length ?recent < 3"
    using that by (simp add: eq)
  have same: "?recent = filter (\<lambda>t. t > now - 60) ?ts" if "\<forall>j < length ?ts. clock j = now"
    using that by (intro recent_from_same) simp
  have bounds: "length (filter (\<lambda>t. t > hi - 60) ?ts) \<le> length ?recent
        \<and> length ?recent \<le> length (filter (\<lambda>t. t > lo - 60) ?ts)"
    if "\<forall>j < length ?ts. lo \<le> clock j \<and> clock j \<le> hi"
    using that by (intro recent_from_bounds) simp
  show ?thesis
    using eq v3 v4 v5 v10 v0 same bounds by blast
qed

theorem backoff_formula_witness:
  "calculate_backoff_time (\<lambda>i. 103) (fst (records [100, 101, 102] fresh)) = 2
   \<and> calculate_backoff_time (\<lambda>i. 104) (fst (records [100, 101, 102, 103] fresh)) = 4
   \<and> calculate_backoff_time (\<lambda>i. 105) (fst (records [100, 101, 102, 103, 104] fresh)) = 8
   \<and> calculate_backoff_time (\<lambda>i. 110)
        (fst (records [100, 101, 102, 103, 104, 105, 106, 107, 108, 109] fresh)) = 60
   \<and> calculate_backoff_time (\<lambda>i. 103) (fst (records [100, 101] fresh)) = 0
   \<and> calculate_backoff_time (\<lambda>i. if i < 3 then 159 else 161)
        (fst (records [100, 100, 100, 100] fresh)) = 2
   \<and> recent_from (\<lambda>i. 161) 0 (request_timestamps (fst (records [100, 100, 102, 103] fresh)))
        = [102, 103]
   \<and> length (recent_from (\<lambda>i. if i < 3 then 159 else 161) 0
        (request_timestamps (fst (records [100, 100, 100, 100] fresh)))) \<le> 4"
proof (intro conjI)
  note bf = backoff_formula
  have three: "length (recent_from (\<lambda>i. 103) 0
      (request_timestamps (fst (records [100, 101, 102] fresh)))) = 3"
    by (simp add: records_fields fresh_eq)
  from bf [THEN conjunct2, THEN conjunct1, THEN mp, OF three]
  show "calculate_backoff_time (\<lambda>i. 103) (fst (records [100, 101, 102] fresh)) = 2" .
  have four: "length (recent_from (\<lambda>i. 104) 0
      (request_timestamps (fst (records [100, 101, 102, 103] fresh)))) = 4"
    by (simp add: records_fields fresh_eq)
  from bf [THEN conjunct2, THEN conjunct2, THEN conjunct1, THEN mp, OF four]
  show "calculate_backoff_time (\<lambda>i. 104) (fst (records [100, 101, 102, 103] fresh)) = 4" .
  have five: "length (recent_from (\<lambda>i. 105) 0
      (request_timestamps (fst (records [100, 101, 102, 103, 104] fresh)))) = 5"
    by (simp add: records_fields fresh_eq)
  from bf [THEN conjunct2, THEN conjunct2, THEN conjunct2, THEN conjunct1, THEN mp, OF five]
  show "calculate_backoff_time (\<lambda>i. 105) (fst (records [100, 101, 102, 103, 104] fresh)) = 8" .
  have ten: "length (recent_from (\<lambda>i. 110) 0 (request_timestamps
      (fst (records [100, 101, 102, 103, 104, 105, 106, 107, 108, 109] fresh)))) = 10"
    by (simp add: records_fields fresh_eq)
  from bf [THEN conjunct2, THEN conjunct2, THEN conjunct2, THEN conjunct2, THEN conjunct1,
      THEN mp, OF ten]
  show "calculate_backoff_time (\<lambda>i. 110)
        (fst (records [100, 101, 102, 103, 104, 105, 106, 107, 108, 109] fresh)) = 60" .
  have two: "length (recent_from (\<lambda>i. 103) 0
      (request_timestamps (fst (records [100, 101] fresh)))) < 3"
    by (simp add: records_fields fresh_eq)
  from bf [THEN conjunct2, THEN conjunct2, THEN conjunct2, THEN conjunct2, THEN conjunct2,
      THEN conjunct1, THEN mp, OF two]
  show "calculate_backoff_time (\<lambda>i. 103) (fst (records [100, 101] fresh)) = 0" .
  have mixed: "length (recent_from (\<lambda>i. if i < 3 then 159 else 161) 0
      (request_timestamps (fst (records [100, 100, 100, 100] fresh)))) = 3"
    by (simp add: records_fields fresh_eq)
  from bf [THEN conjunct2, THEN conjunct1, THEN mp, OF mixed]
  show "calculate_backoff_time (\<lambda>i. if i < 3 then 159 else 161)
        (fst (records [100, 100, 100, 100] fresh)) = 2" .
  have const: "\<forall>j < length (request_timestamps (fst (records [100, 100, 102, 103] fresh))).
      (\<lambda>i. 161 :: real) j = 161"
    by simp
  from bf [THEN conjunct2, THEN conjunct2, THEN conjunct2, THEN conjunct2, THEN conjunct2,
      THEN conjunct2, THEN conjunct1, THEN mp, OF const]
  show "recent_from (\<lambda>i. 161) 0 (request_timestamps (fst (records [100, 100, 102, 103] fresh)))
        = [102, 103]"
    by (simp add: records_fields fresh_eq)
  have between: "\<forall>j < length (request_timestamps (fst (records [100, 100, 100, 100] fresh))).
      159 \<le> (\<lambda>i. if i < 3 then 159 else 161 :: real) j
      \<and> (\<lambda>i. if i < 3 then 159 else 161 :: real) j \<le> 161"
    by simp
  from bf [THEN conjunct2, THEN conjunct2, THEN conjunct2, THEN conjunct2, THEN conjunct2,
      THEN conjunct2, THEN conjunct2, THEN mp, OF between, THEN conjunct2]
  show "length (recent_from (\<lambda>i. if i < 3 then 159 else 161) 0
        (request_timestamps (fst (records [100, 100, 100, 100] fresh)))) \<le> 4"
    by (simp add: records_fields fresh_eq)
qed

subsection \<open>Cooldown\<close>

text \<open>
  Claim C3. When neither ceiling is reached after pruning and \<^verbatim>\<open>last_request_time\<close> is a
  number greater than 0: if \<open>current_time - last_request_time\<close> is less than
  \<open>REQUEST_COOLDOWN\<close> plus the backoff (which \<^verbatim>\<open>calculate_backoff_time\<close> computes on the
  pruned object with its own clock readings), \<^verbatim>\<open>can_make_request\<close> returns \<^verbatim>\<open>False\<close> with the
  cooldown message, whose only field is the remaining wait
  \<open>(REQUEST_COOLDOWN + backoff) - (current_time - last_request_time)\<close> printed with one
  decimal; otherwise it returns \<^verbatim>\<open>(True, None)\<close>.
\<close>

theorem cooldown_check:
  "(int (length (minute_requests (clean_old_requests t_clean s))) < MAX_REQUESTS_PER_MINUTE
   \<and> int (length (daily_requests (clean_old_requests t_clean s))) < MAX_REQUESTS_PER_DAY
   \<and> last_request_time s = PNum l \<and> 0 < l \<longrightarrow>
   can_make_request t_clean now clock s =
     (clean_old_requests t_clean s,
      if now - l < REQUEST_COOLDOWN
           + real_of_int (calculate_backoff_time clock (clean_old_requests t_clean s))
      then Inr (False, Some (cooldown_message
             ((REQUEST_COOLDOWN
                + real_of_int (calculate_backoff_time clock (clean_old_requests t_clean s)))
              - (now - l))))
      else Inr (True, None)))
   \<and> filter is_Fixed (cooldown_message w) = [Fixed 1 w]"
proof (intro conjI impI)
  let ?c = "clean_old_requests t_clean s"
  assume h: "int (length (minute_requests ?c)) < MAX_REQUESTS_PER_MINUTE
   \<and> int (length (daily_requests ?c)) < MAX_REQUESTS_PER_DAY
   \<and> last_request_time s = PNum l \<and> 0 < l"
  then have ceilings: "\<not> MAX_REQUESTS_PER_MINUTE \<le> int (length (minute_requests ?c))"
    "\<not> MAX_REQUESTS_PER_DAY \<le> int (length (daily_requests ?c))"
    by simp_all
  from h have number: "py_number (last_request_time ?c) = Some l"
    by simp
  from h have "0 < l"
    by simp
  with ceilings number
  show "can_make_request t_clean now clock s =
     (?c,
      if now - l < REQUEST_COOLDOWN + real_of_int (calculate_backoff_time clock ?c)
      then Inr (False, Some (cooldown_message
             ((REQUEST_COOLDOWN + real_of_int (calculate_backoff_time clock ?c))
              - (now - l))))
      else Inr (True, None))"
    by (simp add: can_make_request_def Let_def)
next
  show "filter is_Fixed (cooldown_message w) = [Fixed 1 w]"
    by (simp add: cooldown_message_def)
qed

theorem cooldown_check_witness:
  "snd (can_make_request 103 103 (\<lambda>i. 103) (fst (records [100] fresh)))
     = Inr (False, Some (cooldown_message 3))
   \<and> snd (can_make_request (10601 / 100) (10601 / 100) (\<lambda>i. 10601 / 100)
        (fst (records [100] fresh)))
     = Inr (True, None)
   \<and> snd (can_make_request (1599998 / 10000) (1599998 / 10000)
        (\<lambda>i. if i < 2 then 1599999 / 10000 else 160)
        (fst (records [100, 100, 100, 100, 1535 / 10] fresh)))
     = Inr (False, Some (cooldown_message (15002 / 10000)))"
proof (intro conjI)
  let ?s = "fst (records [100] fresh)"
  have h: "int (length (minute_requests (clean_old_requests t ?s))) < MAX_REQUESTS_PER_MINUTE
   \<and> int (length (daily_requests (clean_old_requests t ?s))) < MAX_REQUESTS_PER_DAY
   \<and> last_request_time ?s = PNum 100 \<and> 0 < (100::real)" for t
    by (simp add: one_record MAX_REQUESTS_PER_MINUTE_def MAX_REQUESTS_PER_DAY_def)
  have b: "calculate_backoff_time c (clean_old_requests t' ?s) = 0" for c t'
    by (simp add: calculate_backoff_time_def one_record)
  from cooldown_check [of 103 ?s 100 103 "\<lambda>i. 103", THEN conjunct1, THEN mp, OF h]
  show "snd (can_make_request 103 103 (\<lambda>i. 103) ?s) = Inr (False, Some (cooldown_message 3))"
    by (simp add: b REQUEST_COOLDOWN_def)
  from cooldown_check [of "10601 / 100" ?s 100 "10601 / 100" "\<lambda>i. 10601 / 100", THEN conjunct1,
      THEN mp, OF h]
  show "snd (can_make_request (10601 / 100) (10601 / 100) (\<lambda>i. 10601 / 100) ?s)
     = Inr (True, None)"
    by (simp add: b REQUEST_COOLDOWN_def)
next
  let ?s = "fst (records [100, 100, 100, 100, 1535 / 10] fresh)"
  let ?t = "1599998 / 10000 :: real"
  let ?clock = "\<lambda>i::nat. if i < 2 then 1599999 / 10000 else 160 :: real"
  have h: "int (length (minute_requests (clean_old_requests ?t ?s))) < MAX_REQUESTS_PER_MINUTE
   \<and> int (length (daily_requests (clean_old_requests ?t ?s))) < MAX_REQUESTS_PER_DAY
   \<and> last_request_time ?s = PNum (1535 / 10) \<and> 0 < (1535 / 10 :: real)"
    by (simp add: records_fields fresh_eq MAX_REQUESTS_PER_MINUTE_def MAX_REQUESTS_PER_DAY_def)
  have b: "calculate_backoff_time ?clock (clean_old_requests ?t ?s) = 2"
    by (simp add: calculate_backoff_time_def records_fields fresh_eq)
  from cooldown_check [of ?t ?s "1535 / 10" ?t ?clock, THEN conjunct1, THEN mp, OF h]
  have "snd (can_make_request ?t ?t ?clock ?s) =
     (if ?t - 1535 / 10 < REQUEST_COOLDOWN + real_of_int 2
      then Inr (False, Some (cooldown_message
             ((REQUEST_COOLDOWN + real_of_int 2) - (?t - 1535 / 10))))
      else Inr (True, None))"
    by (simp only: b snd_conv)
  then show "snd (can_make_request ?t ?t ?clock ?s)
     = Inr (False, Some (cooldown_message (15002 / 10000)))"
    by (simp add: REQUEST_COOLDOWN_def)
qed

subsection \<open>The daily ceiling\<close>

text \<open>
  Claim C4. If, after pruning, the minute ceiling is not reached and the daily list holds at
  least \<open>MAX_REQUESTS_PER_DAY\<close> (1500) timestamps, \<^verbatim>\<open>can_make_request\<close> returns
  \<^verbatim>\<open>False\<close> with the daily message, a literal with no formatted field, whatever the clock
  readings and the timestamps are.
\<close>

theorem daily_ceiling_static:
  "(int (length (minute_requests (clean_old_requests t_clean s))) < MAX_REQUESTS_PER_MINUTE
    \<and> MAX_REQUESTS_PER_DAY \<le> int (length (daily_requests (clean_old_requests t_clean s)))
    \<longrightarrow> can_make_request t_clean now clock s =
          (clean_old_requests t_clean s, Inr (False, Some daily_message)))
   \<and> filter is_Fixed daily_message = []"
proof (intro conjI impI)
  let ?c = "clean_old_requests t_clean s"
  assume h: "int (length (minute_requests ?c)) < MAX_REQUESTS_PER_MINUTE
    \<and> MAX_REQUESTS_PER_DAY \<le> int (length (daily_requests ?c))"
  then have "\<not> MAX_REQUESTS_PER_MINUTE \<le> int (length (minute_requests ?c))"
    by simp
  moreover from h have "MAX_REQUESTS_PER_DAY \<le> int (length (daily_requests ?c))"
    by simp
  ultimately show "can_make_request t_clean now clock s = (?c, Inr (False, Some daily_message))"
    by (simp add: can_make_request_def Let_def)
next
  show "filter is_Fixed daily_message = []"
    by (simp add: daily_message_def)
qed

theorem daily_ceiling_static_witness:
  "snd (can_make_request 200 200 (\<lambda>i. 200) (fst (records (replicate 1500 100) fresh)))
     = Inr (False, Some daily_message)
   \<and> snd (can_make_request 86499 86499 (\<lambda>i. 86499) (fst (records (replicate 1500 100) fresh)))
     = Inr (False, Some daily_message)"
proof
  let ?s = "fst (records (replicate 1500 100) fresh)"
  have h: "int (length (minute_requests (clean_old_requests t ?s))) < MAX_REQUESTS_PER_MINUTE
    \<and> MAX_REQUESTS_PER_DAY \<le> int (length (daily_requests (clean_old_requests t ?s)))"
    if "t = 200 \<or> t = 86499" for t
    using that
    by (auto simp: records_fields fresh_eq MAX_REQUESTS_PER_MINUTE_def MAX_REQUESTS_PER_DAY_def)
  from daily_ceiling_static [of 200 ?s 200 "\<lambda>i. 200", THEN conjunct1, THEN mp, OF h]
  show "snd (can_make_request 200 200 (\<lambda>i. 200) ?s) = Inr (False, Some daily_message)"
    by simp
  from daily_ceiling_static [of 86499 ?s 86499 "\<lambda>i. 86499", THEN conjunct1, THEN mp, OF h]
  show "snd (can_make_request 86499 86499 (\<lambda>i. 86499) ?s) = Inr (False, Some daily_message)"
    by simp
qed


subsection \<open>Pruning\<close>

text \<open>
  Claim C5. \<^verbatim>\<open>can_make_request\<close> and \<^verbatim>\<open>get_stats\<close> first prune: they leave in the
  minute, daily and burst lists exactly the timestamps greater than the clock reading minus
  60, 86400 and 300 seconds, in their order, and leave \<^verbatim>\<open>last_request_time\<close> as it is.
  What they answer counts the timestamps in the window only: \<^verbatim>\<open>get_stats\<close> reports their
  numbers, \<^verbatim>\<open>can_make_request\<close> denies with the minute message exactly when at least
  \<open>MAX_REQUESTS_PER_MINUTE\<close> timestamps of the minute list are in the window, and two
  objects with the same \<^verbatim>\<open>last_request_time\<close> and the same timestamps in the three
  windows get the same answer from both operations. After 10 calls recorded at time 0, a
  \<^verbatim>\<open>can_make_request\<close> at time 61 sees an empty minute list and is not denied.
\<close>

theorem window_eviction:
  "minute_requests (fst (can_make_request t now clock s))
     = filter (\<lambda>x. x > t - 60) (minute_requests s)
   \<and> daily_requests (fst (can_make_request t now clock s))
     = filter (\<lambda>x. x > t - 86400) (daily_requests s)
   \<and> request_timestamps (fst (can_make_request t now clock s))
     = filter (\<lambda>x. x > t - 300) (request_timestamps s)
   \<and> last_request_time (fst (can_make_request t now clock s)) = last_request_time s
   \<and> fst (get_stats t s) = fst (can_make_request t now clock s)
   \<and> minute_used (snd (get_stats t s))
     = int (length (filter (\<lambda>x. x > t - 60) (minute_requests s)))
   \<and> daily_used (snd (get_stats t s))
     = int (length (filter (\<lambda>x. x > t - 86400) (daily_requests s)))
   \<and> ((\<exists>w. snd (can_make_request t now clock s) = Inr (False, Some (minute_message w)))
        \<longleftrightarrow> MAX_REQUESTS_PER_MINUTE
              \<le> int (length (filter (\<lambda>x. x > t - 60) (minute_requests s))))
   \<and> (filter (\<lambda>x. x > t - 60) (minute_requests s')
          = filter (\<lambda>x. x > t - 60) (minute_requests s)
        \<and> filter (\<lambda>x. x > t - 86400) (daily_requests s')
          = filter (\<lambda>x. x > t - 86400) (daily_requests s)
        \<and> filter (\<lambda>x. x > t - 300) (request_timestamps s')
          = filter (\<lambda>x. x > t - 300) (request_timestamps s)
        \<and> last_request_time s' = last_request_time s \<longrightarrow>
        can_make_request t now clock s' = can_make_request t now clock s
        \<and> get_stats t s' = get_stats t s)"
proof -
  let ?m = "filter (\<lambda>x. x > t - 60) (minute_requests s)"
  have denial: "(\<exists>w. snd (can_make_request t now clock s) = Inr (False, Some (minute_message w)))
        \<longleftrightarrow> MAX_REQUESTS_PER_MINUTE \<le> int (length ?m)"
  proof (cases "MAX_REQUESTS_PER_MINUTE \<le> int (length ?m)")
    case True
    then have "?m \<noteq> []"
      by (auto simp: MAX_REQUESTS_PER_MINUTE_def)
    then have "py_min ?m = Some (Min (set ?m))"
      by (rule py_min_Min)
    with True show ?thesis
      by (auto simp: can_make_request_def Let_def)
  next
    case False
    then show ?thesis
      by (auto simp: can_make_request_def Let_def messages_differ
          messages_differ [symmetric] split: option.splits if_splits)
  qed
  have same: "can_make_request t now clock s' = can_make_request t now clock s
        \<and> get_stats t s' = get_stats t s"
    if "filter (\<lambda>x. x > t - 60) (minute_requests s') = ?m"
      "filter (\<lambda>x. x > t - 86400) (daily_requests s')
          = filter (\<lambda>x. x > t - 86400) (daily_requests s)"
      "filter (\<lambda>x. x > t - 300) (request_timestamps s')
          = filter (\<lambda>x. x > t - 300) (request_timestamps s)"
      "last_request_time s' = last_request_time s"
  proof -
    from that have "clean_old_requests t s' = clean_old_requests t s"
      by (cases s, cases s') (simp add: clean_old_requests_def)
    then show ?thesis
      by (simp add: can_make_request_def get_stats_def)
  qed
  have stats: "minute_used (snd (get_stats t s)) = int (length ?m)"
    "daily_used (snd (get_stats t s))
       = int (length (filter (\<lambda>x. x > t - 86400) (daily_requests s)))"
    by (simp_all add: get_stats_def Let_def)
  show ?thesis
    using denial same stats by simp
qed

theorem window_eviction_witness:
  "minute_requests (fst (can_make_request 61 61 (\<lambda>i. 61)
      (fst (records [0, 0, 0, 0, 0, 0, 0, 0, 0, 0] fresh)))) = []
   \<and> snd (can_make_request 61 61 (\<lambda>i. 61) (fst (records [0, 0, 0, 0, 0, 0, 0, 0, 0, 0] fresh)))
     = Inr (True, None)
   \<and> minute_requests (fst (can_make_request 59 59 (\<lambda>i. 59)
      (fst (records [0, 0, 0, 0, 0, 0, 0, 0, 0, 0] fresh)))) = [0, 0, 0, 0, 0, 0, 0, 0, 0, 0]
   \<and> (\<exists>w. snd (can_make_request 59 59 (\<lambda>i. 59)
          (fst (records [0, 0, 0, 0, 0, 0, 0, 0, 0, 0] fresh)))
        = Inr (False, Some (minute_message w)))
   \<and> can_make_request 61 61 (\<lambda>i. 61)
        ((fst (records [0, 0, 0, 0, 0, 0, 0, 0, 0, 0] fresh))\<lparr>minute_requests := []\<rparr>)
     = can_make_request 61 61 (\<lambda>i. 61) (fst (records [0, 0, 0, 0, 0, 0, 0, 0, 0, 0] fresh))"
proof (intro conjI)
  let ?s = "fst (records [0, 0, 0, 0, 0, 0, 0, 0, 0, 0] fresh)"
  note late = window_eviction [of 61 61 "\<lambda>i. 61" ?s "?s\<lparr>minute_requests := []\<rparr>"]
  note early = window_eviction [of 59 59 "\<lambda>i. 59" ?s]
  from late [THEN conjunct1]
  show "minute_requests (fst (can_make_request 61 61 (\<lambda>i. 61) ?s)) = []"
    by (simp add: ten_at_zero)
  show "snd (can_make_request 61 61 (\<lambda>i. 61) ?s) = Inr (True, None)"
    by (simp add: can_make_request_def ten_at_zero clean_old_requests_def
        MAX_REQUESTS_PER_MINUTE_def MAX_REQUESTS_PER_DAY_def)
  from early [THEN conjunct1]
  show "minute_requests (fst (can_make_request 59 59 (\<lambda>i. 59) ?s))
      = [0, 0, 0, 0, 0, 0, 0, 0, 0, 0]"
    by (simp add: ten_at_zero)
  have full: "MAX_REQUESTS_PER_MINUTE
      \<le> int (length (filter (\<lambda>x. x > 59 - 60) (minute_requests ?s)))"
    by (simp add: ten_at_zero MAX_REQUESTS_PER_MINUTE_def)
  from early [THEN conjunct2, THEN conjunct2, THEN conjunct2, THEN conjunct2, THEN conjunct2,
      THEN conjunct2, THEN conjunct2, THEN conjunct1, THEN iffD2, OF full]
  show "\<exists>w. snd (can_make_request 59 59 (\<lambda>i. 59) ?s) = Inr (False, Some (minute_message w))" .
  have same: "filter (\<lambda>x. x > 61 - 60) (minute_requests (?s\<lparr>minute_requests := []\<rparr>))
          = filter (\<lambda>x. x > 61 - 60) (minute_requests ?s)
        \<and> filter (\<lambda>x. x > 61 - 86400) (daily_requests (?s\<lparr>minute_requests := []\<rparr>))
          = filter (\<lambda>x. x > 61 - 86400) (daily_requests ?s)
        \<and> filter (\<lambda>x. x > 61 - 300) (request_timestamps (?s\<lparr>minute_requests := []\<rparr>))
          = filter (\<lambda>x. x > 61 - 300) (request_timestamps ?s)
        \<and> last_request_time (?s\<lparr>minute_requests := []\<rparr>) = last_request_time ?s"
    by (simp add: ten_at_zero)
  from late [THEN conjunct2, THEN conjunct2, THEN conjunct2, THEN conjunct2, THEN conjunct2,
      THEN conjunct2, THEN conjunct2, THEN conjunct2, THEN mp, OF same, THEN conjunct1]
  show "can_make_request 61 61 (\<lambda>i. 61) (?s\<lparr>minute_requests := []\<rparr>)
     = can_make_request 61 61 (\<lambda>i. 61) ?s" .
qed

text \<open>
  Claim C6. \<^verbatim>\<open>can_make_request\<close> changes the object by pruning only. A call at a clock
  reading \<open>t\<close> before a call at \<open>t'\<close>, with \<open>t\<close> not after \<open>t'\<close>, leaves the later call's
  object and answer as they are without the earlier call; a second call at the same
  readings returns the same object and the same answer; any number of calls at the same
  readings leave the object of one pruning; pruning twice is pruning once;
  \<^verbatim>\<open>last_request_time\<close> is not changed and no list grows.
\<close>

theorem pruning_only_side_effect:
  "(t \<le> t' \<longrightarrow>
      can_make_request t' now' clock' (fst (can_make_request t now clock s))
        = can_make_request t' now' clock' s)
   \<and> can_make_request t now clock (fst (can_make_request t now clock s)) = can_make_request t now clock s
   \<and> ((\<lambda>x. fst (can_make_request t now clock x)) ^^ Suc n) s = clean_old_requests t s
   \<and> clean_old_requests t (clean_old_requests t s) = clean_old_requests t s
   \<and> last_request_time (fst (can_make_request t now clock s)) = last_request_time s
   \<and> length (minute_requests (fst (can_make_request t now clock s))) \<le> length (minute_requests s)
   \<and> length (daily_requests (fst (can_make_request t now clock s))) \<le> length (daily_requests s)
   \<and> length (request_timestamps (fst (can_make_request t now clock s)))
        \<le> length (request_timestamps s)"
proof -
  have later: "can_make_request t' now' clock' (fst (can_make_request t now clock s))
        = can_make_request t' now' clock' s" if "t \<le> t'" for t' now' clock'
    using that by (simp add: can_make_request_def [of t'] clean_clean)
  have iter: "((\<lambda>x. fst (can_make_request t now clock x)) ^^ Suc n) s = clean_old_requests t s"
    by (induction n) (simp_all add: clean_clean)
  show ?thesis
    using later later [of t now clock] iter by (simp add: clean_clean)
qed

theorem pruning_only_side_effect_witness:
  "can_make_request 105 105 (\<lambda>i. 105) (fst (can_make_request 103 103 (\<lambda>i. 103) (fst (records [100] fresh))))
     = can_make_request 105 105 (\<lambda>i. 105) (fst (records [100] fresh))
   \<and> snd (can_make_request 103 103 (\<lambda>i. 103)
            (fst (can_make_request 103 103 (\<lambda>i. 103) (fst (records [100] fresh)))))
       = Inr (False, Some (cooldown_message 3))
   \<and> minute_requests (fst (can_make_request 200 200 (\<lambda>i. 200)
        (fst (can_make_request 103 103 (\<lambda>i. 103) (fst (records [100] fresh)))))) = []"
proof (intro conjI)
  let ?s = "fst (records [100] fresh)"
  have le: "(103::real) \<le> 105" "(103::real) \<le> 200" by simp_all
  from pruning_only_side_effect [of 103 105 105 "\<lambda>i. 105" 103 "\<lambda>i. 103" ?s, THEN conjunct1, THEN mp, OF le(1)]
  show "can_make_request 105 105 (\<lambda>i. 105) (fst (can_make_request 103 103 (\<lambda>i. 103) ?s))
     = can_make_request 105 105 (\<lambda>i. 105) ?s" .
  from pruning_only_side_effect [of 103 103 103 "\<lambda>i. 103" 103 "\<lambda>i. 103" ?s, THEN conjunct2, THEN conjunct1]
  show "snd (can_make_request 103 103 (\<lambda>i. 103) (fst (can_make_request 103 103 (\<lambda>i. 103) ?s)))
       = Inr (False, Some (cooldown_message 3))"
    by (simp add: can_make_request_def one_record clean_old_requests_def
        calculate_backoff_time_def MAX_REQUESTS_PER_MINUTE_def MAX_REQUESTS_PER_DAY_def
        REQUEST_COOLDOWN_def)
  from pruning_only_side_effect [of 103 200 200 "\<lambda>i. 200" 103 "\<lambda>i. 103" ?s, THEN conjunct1, THEN mp, OF le(2)]
  show "minute_requests (fst (can_make_request 200 200 (\<lambda>i. 200)
        (fst (can_make_request 103 103 (\<lambda>i. 103) ?s)))) = []"
    by (simp add: one_record)
qed

subsection \<open>Statistics\<close>

text \<open>
  Claim C10. \<^verbatim>\<open>record_request\<close> appends whatever the lists hold. After calls recorded at
  the readings \<open>ts\<close>, all within the 60 seconds before \<^verbatim>\<open>get_stats\<close> reads the clock,
  \<^verbatim>\<open>minute_remaining\<close> is \<open>MAX_REQUESTS_PER_MINUTE\<close> minus the earlier timestamps still in
  the window minus the number of \<open>ts\<close>, and is negative when \<open>ts\<close> has more than
  \<open>MAX_REQUESTS_PER_MINUTE\<close> items; likewise \<^verbatim>\<open>daily_remaining\<close> with 86400 seconds and
  \<open>MAX_REQUESTS_PER_DAY\<close>.
\<close>

theorem stats_not_clamped:
  "((\<forall>t \<in> set ts. t > now - 60) \<longrightarrow>
      minute_remaining (snd (get_stats now (fst (records ts sf)))) =
        MAX_REQUESTS_PER_MINUTE
          - int (length (filter (\<lambda>t. t > now - 60) (minute_requests (fst sf))))
          - int (length ts))
   \<and> ((\<forall>t \<in> set ts. t > now - 60) \<and> nat MAX_REQUESTS_PER_MINUTE < length ts \<longrightarrow>
      minute_remaining (snd (get_stats now (fst (records ts sf)))) < 0)
   \<and> ((\<forall>t \<in> set ts. t > now - 86400) \<longrightarrow>
      daily_remaining (snd (get_stats now (fst (records ts sf)))) =
        MAX_REQUESTS_PER_DAY
          - int (length (filter (\<lambda>t. t > now - 86400) (daily_requests (fst sf))))
          - int (length ts))
   \<and> ((\<forall>t \<in> set ts. t > now - 86400) \<and> nat MAX_REQUESTS_PER_DAY < length ts \<longrightarrow>
      daily_remaining (snd (get_stats now (fst (records ts sf)))) < 0)
   \<and> minute_requests (fst (record_request t w sf)) = minute_requests (fst sf) @ [t]
   \<and> daily_requests (fst (record_request t w sf)) = daily_requests (fst sf) @ [t]"
proof -
  have m: "minute_remaining (snd (get_stats now (fst (records ts sf)))) =
        MAX_REQUESTS_PER_MINUTE
          - int (length (filter (\<lambda>t. t > now - 60) (minute_requests (fst sf))))
          - int (length ts)" if "\<forall>t \<in> set ts. t > now - 60"
    using that by (simp add: get_stats_def Let_def records_fields)
  have d: "daily_remaining (snd (get_stats now (fst (records ts sf)))) =
        MAX_REQUESTS_PER_DAY
          - int (length (filter (\<lambda>t. t > now - 86400) (daily_requests (fst sf))))
          - int (length ts)" if "\<forall>t \<in> set ts. t > now - 86400"
    using that by (simp add: get_stats_def Let_def records_fields)
  have "minute_remaining (snd (get_stats now (fst (records ts sf)))) < 0"
    if "\<forall>t \<in> set ts. t > now - 60" "nat MAX_REQUESTS_PER_MINUTE < length ts"
    using m [OF that(1)] that(2) by (simp add: MAX_REQUESTS_PER_MINUTE_def)
  moreover have "daily_remaining (snd (get_stats now (fst (records ts sf)))) < 0"
    if "\<forall>t \<in> set ts. t > now - 86400" "nat MAX_REQUESTS_PER_DAY < length ts"
    using d [OF that(1)] that(2) by (simp add: MAX_REQUESTS_PER_DAY_def)
  moreover have "minute_requests (fst (record_request t w sf)) = minute_requests (fst sf) @ [t]"
    "daily_requests (fst (record_request t w sf)) = daily_requests (fst sf) @ [t]"
    by (simp_all add: record_request_def Let_def)
  ultimately show ?thesis
    using m d by blast
qed

theorem stats_not_clamped_witness:
  "minute_remaining (snd (get_stats 111
     (fst (records [100, 101, 102, 103, 104, 105, 106, 107, 108, 109, 110] fresh)))) = - 1
   \<and> daily_remaining (snd (get_stats 200 (fst (records (replicate 1501 100) fresh)))) = - 1"
proof
  have "\<forall>t \<in> set [100, 101, 102, 103, 104, 105, 106, 107, 108, 109, 110 :: real]. t > 111 - 60"
    by simp
  from stats_not_clamped [of "[100, 101, 102, 103, 104, 105, 106, 107, 108, 109, 110]" 111 fresh,
      THEN conjunct1, THEN mp, OF this]
  show "minute_remaining (snd (get_stats 111
     (fst (records [100, 101, 102, 103, 104, 105, 106, 107, 108, 109, 110] fresh)))) = - 1"
    by (simp add: fresh_eq MAX_REQUESTS_PER_MINUTE_def)
  have "\<forall>t \<in> set (replicate 1501 (100::real)). t > 200 - 86400"
    by simp
  from stats_not_clamped [of "replicate 1501 100" 200 fresh,
      THEN conjunct2, THEN conjunct2, THEN conjunct1, THEN mp, OF this]
  show "daily_remaining (snd (get_stats 200 (fst (records (replicate 1501 100) fresh)))) = - 1"
    by (simp add: fresh_eq MAX_REQUESTS_PER_DAY_def)
qed


subsection \<open>The time of the last call\<close>

text \<open>
  Claim C7, as amended. In every state that a process started without a state file reaches
  by \<^verbatim>\<open>can_make_request\<close>, \<^verbatim>\<open>get_stats\<close>, \<^verbatim>\<open>record_request\<close> and restarts, the clock
  never behind \<^verbatim>\<open>last_request_time\<close> at a \<^verbatim>\<open>record_request\<close>: if one of the three lists
  is not empty, \<^verbatim>\<open>last_request_time\<close> is the maximum of their timestamps; this is so
  after every \<^verbatim>\<open>record_request\<close>.
\<close>

theorem last_request_time_is_max:
  "(clock_ok str_float ops fresh
      \<and> minute_requests (fst (run str_float ops fresh))
          @ daily_requests (fst (run str_float ops fresh))
          @ request_timestamps (fst (run str_float ops fresh)) \<noteq> []
      \<longrightarrow> last_is_max (fst (run str_float ops fresh)))
   \<and> (clock_ok str_float (ops @ [Record t w]) fresh
      \<longrightarrow> last_is_max (fst (run str_float (ops @ [Record t w]) fresh)))"
proof (intro conjI impI)
  assume "clock_ok str_float ops fresh
      \<and> minute_requests (fst (run str_float ops fresh))
          @ daily_requests (fst (run str_float ops fresh))
          @ request_timestamps (fst (run str_float ops fresh)) \<noteq> []"
  then show "last_is_max (fst (run str_float ops fresh))"
    using good_run [OF good_fresh, of str_float ops] by (simp add: good_last_is_max)
next
  let ?x = "run str_float ops fresh"
  assume ok: "clock_ok str_float (ops @ [Record t w]) fresh"
  then have "good (fst (run str_float (ops @ [Record t w]) fresh))"
    using good_run [OF good_fresh, of str_float "ops @ [Record t w]"] by simp
  moreover have "minute_requests (fst (run str_float (ops @ [Record t w]) fresh)) \<noteq> []"
    by (cases ?x) (simp add: run_append record_request_def Let_def)
  ultimately show "last_is_max (fst (run str_float (ops @ [Record t w]) fresh))"
    by (simp add: good_last_is_max)
qed

theorem last_request_time_is_max_witness:
  "last_is_max (fst (run (\<lambda>s. None)
      [Record 100 Written, Check 103 103 (\<lambda>i. 103), Record 110 WriteFailed, Restart, Stats 120,
       Record 130 Written, Restart, Check 180 180 (\<lambda>i. 180)] fresh))
   \<and> last_is_max (fst (run (\<lambda>s. None) ([Check 50 50 (\<lambda>i. 50)] @ [Record 100 OpenFailed]) fresh))"
proof
  let ?ops = "[Record 100 Written, Check 103 103 (\<lambda>i. 103), Record 110 WriteFailed, Restart, Stats 120,
       Record 130 Written, Restart, Check 180 180 (\<lambda>i. 180)]"
  have run: "fst (run (\<lambda>s. None) ?ops fresh) =
      \<lparr>minute_requests = [130], daily_requests = [130],
       last_request_time = PNum 130, request_timestamps = []\<rparr>"
    by (simp add: run_defs clean_old_requests_def)
  have "clock_ok (\<lambda>s. None) ?ops fresh"
    by (simp add: run_defs clean_old_requests_def)
  with run last_request_time_is_max [of "\<lambda>s. None" ?ops, THEN conjunct1]
  show "last_is_max (fst (run (\<lambda>s. None) ?ops fresh))"
    by simp
  have "clock_ok (\<lambda>s. None) ([Check 50 50 (\<lambda>i. 50)] @ [Record 100 OpenFailed]) fresh"
    by (simp add: run_defs clean_old_requests_def)
  from last_request_time_is_max [of "\<lambda>s. None" "[Check 50 50 (\<lambda>i. 50)]" 100 OpenFailed,
      THEN conjunct2, THEN mp, OF this]
  show "last_is_max (fst (run (\<lambda>s. None) ([Check 50 50 (\<lambda>i. 50)] @ [Record 100 OpenFailed]) fresh))" .
qed

text \<open>
  Claim C7 without these two conditions fails. Without the condition that a list is not
  empty: a call recorded at time 100 and a \<^verbatim>\<open>can_make_request\<close> at time 100000 leave
  three empty lists, which have no maximum, and \<^verbatim>\<open>last_request_time\<close> is 100. Without
  the condition on the clock: a call recorded at time 100 and a call recorded at time 50
  leave \<^verbatim>\<open>last_request_time\<close> at 50, and the maximum of the lists is 100.
\<close>

theorem last_request_time_is_max_counterexample:
  "clock_ok (\<lambda>s. None) [Record 100 Written, Check 100000 100000 (\<lambda>i. 100000)] fresh
   \<and> fst (run (\<lambda>s. None) [Record 100 Written, Check 100000 100000 (\<lambda>i. 100000)] fresh) =
      \<lparr>minute_requests = [], daily_requests = [],
       last_request_time = PNum 100, request_timestamps = []\<rparr>
   \<and> \<not> last_is_max
        (fst (run (\<lambda>s. None) [Record 100 Written, Check 100000 100000 (\<lambda>i. 100000)] fresh))
   \<and> \<not> clock_ok (\<lambda>s. None) [Record 100 Written, Record 50 Written] fresh
   \<and> fst (run (\<lambda>s. None) [Record 100 Written, Record 50 Written] fresh) =
      \<lparr>minute_requests = [100, 50], daily_requests = [100, 50],
       last_request_time = PNum 50, request_timestamps = [100, 50]\<rparr>
   \<and> \<not> last_is_max (fst (run (\<lambda>s. None) [Record 100 Written, Record 50 Written] fresh))"
  by (simp add: run_defs clean_old_requests_def last_is_max_def)

subsection \<open>Persistence\<close>

text \<open>
  Claim C9. A \<^verbatim>\<open>record_request\<close> whose write succeeds leaves in the file the dict with
  exactly the keys \<^verbatim>\<open>minute_requests\<close>, \<^verbatim>\<open>daily_requests\<close> and \<^verbatim>\<open>last_request_time\<close>,
  holding the values of the object; a \<^verbatim>\<open>RateLimiter\<close> built from that file is the object
  with \<^verbatim>\<open>request_timestamps\<close> empty. After one or more recorded calls the new
  \<^verbatim>\<open>RateLimiter\<close> returns the same \<^verbatim>\<open>get_stats\<close> as the object that wrote the file, at
  every clock reading.
\<close>

theorem persistence_round_trip:
  "snd (record_request t Written sf) =
     Json (PDict
       [(''minute_requests'',
           PList (map PNum (minute_requests (fst (record_request t Written sf))))),
        (''daily_requests'',
           PList (map PNum (daily_requests (fst (record_request t Written sf))))),
        (''last_request_time'', last_request_time (fst (record_request t Written sf)))])
   \<and> RateLimiter str_float (snd (record_request t Written sf))
       = (fst (record_request t Written sf))\<lparr>request_timestamps := []\<rparr>
   \<and> (ts \<noteq> [] \<longrightarrow>
        snd (records ts sf) = Json (state_dict (fst (records ts sf)))
        \<and> RateLimiter str_float (snd (records ts sf))
            = (fst (records ts sf))\<lparr>request_timestamps := []\<rparr>
        \<and> snd (get_stats now (RateLimiter str_float (snd (records ts sf))))
            = snd (get_stats now (fst (records ts sf))))"
proof (intro conjI impI)
  show "snd (record_request t Written sf) =
     Json (PDict
       [(''minute_requests'',
           PList (map PNum (minute_requests (fst (record_request t Written sf))))),
        (''daily_requests'',
           PList (map PNum (daily_requests (fst (record_request t Written sf))))),
        (''last_request_time'', last_request_time (fst (record_request t Written sf)))])"
    by (simp add: record_request_snd_Written state_dict_def)
  show "RateLimiter str_float (snd (record_request t Written sf))
       = (fst (record_request t Written sf))\<lparr>request_timestamps := []\<rparr>"
    by (simp add: record_request_snd_Written RateLimiter_state_dict)
next
  assume ne: "ts \<noteq> []"
  then show saved: "snd (records ts sf) = Json (state_dict (fst (records ts sf)))"
    by (rule records_snd)
  then show load: "RateLimiter str_float (snd (records ts sf))
            = (fst (records ts sf))\<lparr>request_timestamps := []\<rparr>"
    by (simp add: RateLimiter_state_dict)
  then show "snd (get_stats now (RateLimiter str_float (snd (records ts sf))))
            = snd (get_stats now (fst (records ts sf)))"
    by (simp add: get_stats_burst)
qed

theorem persistence_round_trip_witness:
  "snd (get_stats 103 (RateLimiter (\<lambda>s. None) (snd (records [100, 101, 102] fresh))))
     = snd (get_stats 103 (fst (records [100, 101, 102] fresh)))
   \<and> minute_used (snd (get_stats 103
        (RateLimiter (\<lambda>s. None) (snd (records [100, 101, 102] fresh))))) = 3
   \<and> request_timestamps (RateLimiter (\<lambda>s. None) (snd (records [100, 101, 102] fresh))) = []"
proof -
  have ne: "[100, 101, 102 :: real] \<noteq> []"
    by simp
  note rt = persistence_round_trip [of _ fresh "\<lambda>s. None" "[100, 101, 102]" 103,
      THEN conjunct2, THEN conjunct2, THEN mp, OF ne]
  from rt have stats: "snd (get_stats 103
        (RateLimiter (\<lambda>s. None) (snd (records [100, 101, 102] fresh))))
     = snd (get_stats 103 (fst (records [100, 101, 102] fresh)))"
    by (rule conjunct2 [THEN conjunct2])
  from rt have load: "RateLimiter (\<lambda>s. None) (snd (records [100, 101, 102] fresh))
     = (fst (records [100, 101, 102] fresh))\<lparr>request_timestamps := []\<rparr>"
    by (rule conjunct2 [THEN conjunct1])
  have "minute_used (snd (get_stats 103 (fst (records [100, 101, 102] fresh)))) = 3"
    by (simp add: get_stats_def Let_def records_fields fresh_eq)
  then have "minute_used (snd (get_stats 103
        (RateLimiter (\<lambda>s. None) (snd (records [100, 101, 102] fresh))))) = 3"
    by (simp only: stats)
  moreover
  have "request_timestamps (RateLimiter (\<lambda>s. None) (snd (records [100, 101, 102] fresh))) = []"
    by (simp only: load) simp
  ultimately show ?thesis
    using stats by blast
qed

subsection \<open>Storage failures\<close>

text \<open>
  A file that is absent, cannot be opened, is not JSON or is not a JSON object gives the
  empty state, and so does a file whose \<^verbatim>\<open>minute_requests\<close> cannot be turned into a list
  of floats. A failed write changes nothing in memory, so the answers after it are those
  after a successful write.
\<close>

lemma non_object_resets:
  "f = Absent \<or> f = Unreadable \<or> f = Garbage
     \<or> (\<exists>v. f = Json v \<and> (\<forall>kvs. v \<noteq> PDict kvs)) \<Longrightarrow>
   RateLimiter str_float f =
     \<lparr>minute_requests = [], daily_requests = [],
      last_request_time = PNum 0, request_timestamps = []\<rparr>"
proof (elim disjE exE conjE)
  fix v assume "f = Json v" "\<forall>kvs. v \<noteq> PDict kvs"
  then show ?thesis
    by (cases v) (simp_all add: RateLimiter_def load_state_def reset_state_def blank_def)
qed (simp_all add: RateLimiter_reset)

lemma bad_list_resets:
  "float_list str_float mv = None \<Longrightarrow>
   RateLimiter str_float (Json (PDict [(''minute_requests'', mv), (''daily_requests'', dv),
       (''last_request_time'', l)])) =
     \<lparr>minute_requests = [], daily_requests = [],
      last_request_time = PNum 0, request_timestamps = []\<rparr>"
  by (simp add: RateLimiter_def load_state_def reset_state_def blank_def)

lemma record_request_memory:
  "fst (record_request t w sf) = fst (record_request t Written sf)"
  by (simp add: record_request_def Let_def)

lemma failed_write_then_decision:
  "can_make_request t now clock (fst (record_request t0 w sf))
     = can_make_request t now clock (fst (record_request t0 Written sf))"
  by (simp add: record_request_memory [of t0 w])

text \<open>
  Claim C8 fails for a file that is a JSON object whose \<^verbatim>\<open>last_request_time\<close> is not a
  number: \<^verbatim>\<open>load_state\<close> assigns the value as it is (the two lists go through
  \<^verbatim>\<open>float\<close>, this value does not), nothing is raised inside the \<^verbatim>\<open>try\<close> block and the
  state is not reset; the next \<^verbatim>\<open>can_make_request\<close> raises \<^verbatim>\<open>TypeError\<close> at
  \<^verbatim>\<open>self.last_request_time > 0\<close>.
\<close>

theorem unchecked_last_request_time:
  "RateLimiter (\<lambda>s. None)
     (Json (PDict [(''minute_requests'', PList []), (''daily_requests'', PList []),
                   (''last_request_time'', PStr ''abc'')]))
     = \<lparr>minute_requests = [], daily_requests = [],
        last_request_time = PStr ''abc'', request_timestamps = []\<rparr>
   \<and> snd (can_make_request 1000 1000 (\<lambda>i. 1000)
        (RateLimiter (\<lambda>s. None)
          (Json (PDict [(''minute_requests'', PList []), (''daily_requests'', PList []),
                        (''last_request_time'', PStr ''abc'')]))))
     = Inl TypeError
   \<and> snd (can_make_request 1000 1000 (\<lambda>i. 1000)
        (RateLimiter (\<lambda>s. None) (Json (PDict [(''last_request_time'', PNone)]))))
     = Inl TypeError"
  by (simp add: RateLimiter_def load_state_def blank_def float_list_def can_make_request_def
      clean_old_requests_def MAX_REQUESTS_PER_MINUTE_def MAX_REQUESTS_PER_DAY_def)


end
